theory Spec2Isabelle
  imports
    Main
    "HOL-Library.List_Lexorder"
    "HOL-Library.Product_Lexorder"
    "HOL-Library.Multiset"
begin

section \<open>MediMate: a medication store and an adherence log over two SQLite tables\<close>

text \<open>
  The program is \<^verbatim>\<open>src/app.py\<close>: six Flask handlers over the tables
  \<^verbatim>\<open>meds\<close> and \<^verbatim>\<open>taken_logs\<close>. Every handler opens a
  connection, runs its statements, commits and closes, so a handler is a function from
  the stored tables (and the request, and the clock where it reads it) to a response and
  the tables afterwards.

  What is modelled and what is not:
  \<^item> a Python \<^verbatim>\<open>str\<close> is the list of its code points, so \<open>length\<close> is
    Python's \<^verbatim>\<open>len\<close> and the list order of \<^verbatim>\<open>List_Lexorder\<close> is
    SQLite's default \<^verbatim>\<open>BINARY\<close> collation (UTF-8 byte order is code point
    order);
  \<^item> the id of a request is a Python \<^verbatim>\<open>int\<close>, which the route takes
    from the URL and which has no bound. SQLite's integers are 64-bit, and the driver
    raises \<^verbatim>\<open>OverflowError\<close> when it is to bind an \<^verbatim>\<open>int\<close>
    outside that range; no handler catches it, so the request ends there;
  \<^item> the row ids the tables hand out are unbounded integers: a table that has handed out
    \<open>2^63 - 1\<close> ids refuses the insert, which like a full disk is a fault of the
    storage layer and is not modelled;
  \<^item> the rendering of templates is not modelled: a response names the template and
    carries the values handed to it.
\<close>

subsection \<open>Python strings\<close>

type_synonym pystr = "nat list"

definition py :: "string \<Rightarrow> pystr" where
  "py s = map of_char s"

text \<open>
  \<^verbatim>\<open>str.strip()\<close> without an argument removes leading and trailing white
  space, which for a \<^verbatim>\<open>str\<close> is the code points for which
  \<^verbatim>\<open>str.isspace\<close> holds.
\<close>

definition isspace :: "nat \<Rightarrow> bool" where
  "isspace c \<longleftrightarrow>
     (9 \<le> c \<and> c \<le> 13) \<or> (28 \<le> c \<and> c \<le> 32) \<or> c = 133 \<or> c = 160 \<or> c = 5760 \<or>
     (8192 \<le> c \<and> c \<le> 8202) \<or> c = 8232 \<or> c = 8233 \<or> c = 8239 \<or> c = 8287 \<or> c = 12288"

definition str_strip :: "pystr \<Rightarrow> pystr" where
  "str_strip s = rev (dropWhile isspace (rev (dropWhile isspace s)))"

text \<open>
  \<^verbatim>\<open>str.lower()\<close>. The table is Unicode's up to U+00FF, together with the two
  code points above it whose lower case contains an ASCII letter (U+0130 and the Kelvin
  sign U+212A). Every other code point above U+00FF is left as it is: its lower case,
  whatever it is, contains no ASCII letter.
\<close>

definition lower_cp :: "nat \<Rightarrow> pystr" where
  "lower_cp c =
     (if 65 \<le> c \<and> c \<le> 90 then [c + 32]
      else if 192 \<le> c \<and> c \<le> 222 \<and> c \<noteq> 215 then [c + 32]
      else if c = 304 then [105, 775]
      else if c = 8490 then [107]
      else [c])"

definition str_lower :: "pystr \<Rightarrow> pystr" where
  "str_lower s = concat (map lower_cp s)"

text \<open>\<^verbatim>\<open>(v or "")\<close> for a value that is a \<^verbatim>\<open>str\<close> or \<^verbatim>\<open>None\<close>.\<close>

definition or_empty :: "pystr option \<Rightarrow> pystr" where
  "or_empty v = (case v of None \<Rightarrow> [] | Some s \<Rightarrow> s)"

subsection \<open>The clock\<close>

text \<open>
  \<^verbatim>\<open>datetime.now()\<close> is the local wall clock, without a time zone. The
  microseconds are left out: \<^verbatim>\<open>isoformat(timespec="seconds")\<close> drops them.
\<close>

record datetime =
  dt_year :: nat
  dt_month :: nat
  dt_day :: nat
  dt_hour :: nat
  dt_minute :: nat
  dt_second :: nat

definition digits2 :: "nat \<Rightarrow> pystr" where
  "digits2 n = [48 + n div 10 mod 10, 48 + n mod 10]"

definition digits4 :: "nat \<Rightarrow> pystr" where
  "digits4 n = [48 + n div 1000 mod 10, 48 + n div 100 mod 10, 48 + n div 10 mod 10, 48 + n mod 10]"

definition isoformat_date :: "datetime \<Rightarrow> pystr" where
  "isoformat_date t = digits4 (dt_year t) @ [45] @ digits2 (dt_month t) @ [45] @ digits2 (dt_day t)"

definition now_iso :: "datetime \<Rightarrow> pystr" where
  "now_iso t = isoformat_date t @ [84] @ digits2 (dt_hour t) @ [58] @ digits2 (dt_minute t)
                 @ [58] @ digits2 (dt_second t)"

text \<open>
  SQLite's \<^verbatim>\<open>date('now', 'localtime')\<close>: the date of the same local clock.
\<close>

definition sql_date_now_localtime :: "datetime \<Rightarrow> pystr" where
  "sql_date_now_localtime t = isoformat_date t"

text \<open>
  SQLite's \<^verbatim>\<open>date(X)\<close> on a stored text, for the one shape this program
  writes: YYYY-MM-DDTHH:MM:SS naming a date of the calendar and a time of the day, where
  it is the first ten characters. SQLite reads further shapes and gives NULL for a text
  it cannot read; \<open>None\<close> stands for both, and the program writes neither.
\<close>

definition is_digit :: "nat \<Rightarrow> bool" where
  "is_digit c \<longleftrightarrow> 48 \<le> c \<and> c \<le> 57"

definition to_num :: "pystr \<Rightarrow> nat" where
  "to_num s = foldl (\<lambda>a c. 10 * a + (c - 48)) 0 s"

definition days_in_month :: "nat \<Rightarrow> nat \<Rightarrow> nat" where
  "days_in_month y m =
     (if m = 2 then (if y mod 4 = 0 \<and> (y mod 100 \<noteq> 0 \<or> y mod 400 = 0) then 29 else 28)
      else if m = 4 \<or> m = 6 \<or> m = 9 \<or> m = 11 then 30 else 31)"

definition sql_date :: "pystr \<Rightarrow> pystr option" where
  "sql_date s =
     (let y = to_num (take 4 s); m = to_num (take 2 (drop 5 s)); d = to_num (take 2 (drop 8 s));
          hh = to_num (take 2 (drop 11 s)); mi = to_num (take 2 (drop 14 s));
          ss = to_num (take 2 (drop 17 s))
      in if length s = 19 \<and> s ! 4 = 45 \<and> s ! 7 = 45 \<and> s ! 10 = 84 \<and> s ! 13 = 58 \<and> s ! 16 = 58
            \<and> list_all is_digit (take 4 s @ take 2 (drop 5 s) @ take 2 (drop 8 s)
                 @ take 2 (drop 11 s) @ take 2 (drop 14 s) @ take 2 (drop 17 s))
            \<and> 1 \<le> m \<and> m \<le> 12 \<and> 1 \<le> d \<and> d \<le> days_in_month y m
            \<and> hh \<le> 23 \<and> mi \<le> 59 \<and> ss \<le> 59
         then Some (take 10 s) else None)"

subsection \<open>The tables\<close>

text \<open>
  The columns of a row of \<^verbatim>\<open>meds\<close> and of \<^verbatim>\<open>taken_logs\<close>. The column
  \<^verbatim>\<open>id\<close> of each table is written \<open>mid\<close> and \<open>tid\<close>. The column
  \<^verbatim>\<open>notes\<close> may hold NULL by the schema; the program always writes a text.
\<close>

record med =
  mid :: int
  name :: pystr
  dose :: pystr
  time_of_day :: pystr
  "notes" :: pystr
  created_at :: pystr

record taken_log =
  tid :: int
  med_id :: int
  taken_at :: pystr

text \<open>
  The store: the rows of each table in rowid order, and for each table the largest rowid
  it has ever held (\<^verbatim>\<open>AUTOINCREMENT\<close> keeps it in sqlite_sequence).
\<close>

record db =
  meds :: "med list"
  taken_logs :: "taken_log list"
  meds_seq :: int
  taken_logs_seq :: int

definition empty_db :: db where
  "empty_db = \<lparr>meds = [], taken_logs = [], meds_seq = 0, taken_logs_seq = 0\<rparr>"

text \<open>
  \<^verbatim>\<open>init_db\<close>: CREATE TABLE IF NOT EXISTS, on a database file that is absent
  (\<open>None\<close>) or present.
\<close>

definition init_db :: "db option \<Rightarrow> db" where
  "init_db f = (case f of None \<Rightarrow> empty_db | Some d \<Rightarrow> d)"

text \<open>The rowid of an insert: one more than the largest the table has ever held.\<close>

definition next_rowid :: "int \<Rightarrow> int list \<Rightarrow> int" where
  "next_rowid seq ids = foldr max ids seq + 1"

subsection \<open>Requests and responses\<close>

datatype http_method = GET | POST

text \<open>
  The fields of a submitted form; \<^verbatim>\<open>request.form.get\<close> gives
  \<^verbatim>\<open>None\<close> for a field that was not sent.
\<close>

record form =
  f_name :: "pystr option"
  f_dose :: "pystr option"
  f_schedule :: "pystr option"
  f_notes :: "pystr option"

text \<open>
  The rows the queries return. \<open>edit_row\<close> is \<^verbatim>\<open>m.*\<close> with the alias
  \<^verbatim>\<open>schedule\<close>; \<open>index_row\<close> adds \<^verbatim>\<open>last_taken\<close>, NULL
  being \<open>None\<close>; \<open>history_row\<close> is the four columns of the history query.
\<close>

record edit_row =
  e_med :: med
  e_schedule :: pystr

record index_row =
  i_med :: med
  i_schedule :: pystr
  last_taken :: "pystr option"

record history_row =
  h_taken_at :: pystr
  h_name :: pystr
  h_dose :: pystr
  h_schedule :: pystr

text \<open>
  The exception the driver raises when it binds an \<^verbatim>\<open>int\<close> that is not a
  64-bit integer.
\<close>

datatype py_error = OverflowError

text \<open>
  A response: a rendered template with the values handed to it, the redirect to the
  index page, the 404 of \<^verbatim>\<open>abort(404)\<close>, or an exception that leaves the
  handler.
\<close>

datatype response =
    Index_html "index_row list"
  | Add_edit_html string "edit_row option"
  | History_html "history_row list" pystr
  | Redirect_index
  | Abort_404
  | Unhandled py_error

text \<open>
  What a handler leaves behind: the messages it flashed (message and category), its
  response, and the tables.
\<close>

record outcome =
  flashes :: "(pystr \<times> string) list"
  response :: response
  store :: db

subsection \<open>Validation\<close>

definition validate_med_form :: "pystr \<Rightarrow> pystr \<Rightarrow> pystr \<Rightarrow> bool \<times> pystr" where
  "validate_med_form nm ds sc =
     (if nm = [] \<or> ds = [] \<or> sc = [] then (False, py ''Please fill in Name, Dose, and Schedule.'')
      else if length nm > 60 then (False, py ''Medication name is too long (max 60 chars).'')
      else if length ds > 60 then (False, py ''Dose is too long (max 60 chars).'')
      else if length sc > 40 then (False, py ''Schedule is too long (max 40 chars).'')
      else (True, []))"

subsection \<open>The handlers\<close>

text \<open>
  The integers the driver can bind as a parameter of a statement, and what is left of a
  request whose statement raised before anything was written or flashed.
\<close>

definition sqlite_integer :: "int \<Rightarrow> bool" where
  "sqlite_integer i \<longleftrightarrow> - (2 ^ 63) \<le> i \<and> i < 2 ^ 63"

definition raised :: "py_error \<Rightarrow> db \<Rightarrow> outcome" where
  "raised e d = \<lparr>flashes = [], response = Unhandled e, store = d\<rparr>"

text \<open>
  \<^verbatim>\<open>SELECT MAX(taken_at)\<close> over the rows of one medication: NULL when there
  is none, the greatest text otherwise.
\<close>

fun sql_max :: "pystr list \<Rightarrow> pystr option" where
  "sql_max [] = None"
| "sql_max (x # xs) = Some (foldr max xs x)"

definition last_taken_of :: "db \<Rightarrow> int \<Rightarrow> pystr option" where
  "last_taken_of d i = sql_max (map taken_at (filter (\<lambda>t. med_id t = i) (taken_logs d)))"

text \<open>
  \<^verbatim>\<open>index\<close>. ORDER BY time_of_day ASC, name ASC is the sort on the pair of the
  two columns. The order of rows that agree on both is not fixed by SQL; the model keeps
  them in rowid order.
\<close>

definition index_query :: "db \<Rightarrow> index_row list" where
  "index_query d =
     map (\<lambda>m. \<lparr>i_med = m, i_schedule = time_of_day m, last_taken = last_taken_of d (mid m)\<rparr>)
         (sort_key (\<lambda>m. (time_of_day m, name m)) (meds d))"

definition index :: "db \<Rightarrow> outcome" where
  "index d = \<lparr>flashes = [], response = Index_html (index_query d), store = d\<rparr>"

definition add_med :: "datetime \<Rightarrow> http_method \<Rightarrow> form \<Rightarrow> db \<Rightarrow> outcome" where
  "add_med clock method f d =
     (if method = POST then
        (let nm = str_strip (or_empty (f_name f));
             ds = str_strip (or_empty (f_dose f));
             sc = str_strip (or_empty (f_schedule f));
             nt = str_strip (or_empty (f_notes f));
             (ok, msg) = validate_med_form nm ds sc
         in if \<not> ok then
              \<lparr>flashes = [(msg, ''error'')], response = Add_edit_html ''add'' None, store = d\<rparr>
            else
              (let i = next_rowid (meds_seq d) (map mid (meds d))
               in \<lparr>flashes = [(py ''Medication added.'', ''success'')],
                   response = Redirect_index,
                   store = d\<lparr>meds := meds d @ [\<lparr>mid = i, name = nm, dose = ds, time_of_day = sc,
                                                   notes = nt, created_at = now_iso clock\<rparr>],
                              meds_seq := i\<rparr>\<rparr>))
      else \<lparr>flashes = [], response = Add_edit_html ''add'' None, store = d\<rparr>)"

definition edit_med :: "int \<Rightarrow> http_method \<Rightarrow> form \<Rightarrow> db \<Rightarrow> outcome" where
  "edit_med i method f d =
     (if \<not> sqlite_integer i then raised OverflowError d else
      case find (\<lambda>m. mid m = i) (meds d) of
        None \<Rightarrow> \<lparr>flashes = [], response = Abort_404, store = d\<rparr>
      | Some med \<Rightarrow>
          (let row = \<lparr>e_med = med, e_schedule = time_of_day med\<rparr> in
           if method = POST then
             (let nm = str_strip (or_empty (f_name f));
                  ds = str_strip (or_empty (f_dose f));
                  sc = str_strip (or_empty (f_schedule f));
                  nt = str_strip (or_empty (f_notes f));
                  (ok, msg) = validate_med_form nm ds sc
              in if \<not> ok then
                   \<lparr>flashes = [(msg, ''error'')], response = Add_edit_html ''edit'' (Some row),
                    store = d\<rparr>
                 else
                   \<lparr>flashes = [(py ''Medication updated.'', ''success'')],
                    response = Redirect_index,
                    store = d\<lparr>meds :=
                      map (\<lambda>m. if mid m = i
                                then m\<lparr>name := nm, dose := ds, time_of_day := sc, notes := nt\<rparr>
                                else m) (meds d)\<rparr>\<rparr>)
           else \<lparr>flashes = [], response = Add_edit_html ''edit'' (Some row), store = d\<rparr>))"

text \<open>The check mark of the message of \<^verbatim>\<open>mark_taken\<close> is U+2705.\<close>

definition mark_taken :: "datetime \<Rightarrow> int \<Rightarrow> db \<Rightarrow> outcome" where
  "mark_taken clock i d =
     (if \<not> sqlite_integer i then raised OverflowError d else
      case find (\<lambda>m. mid m = i) (meds d) of
        None \<Rightarrow>
          \<lparr>flashes = [(py ''Medication not found.'', ''error'')], response = Redirect_index,
           store = d\<rparr>
      | Some _ \<Rightarrow>
          (let k = next_rowid (taken_logs_seq d) (map tid (taken_logs d))
           in \<lparr>flashes = [(9989 # py '' Marked as taken.'', ''success'')],
               response = Redirect_index,
               store = d\<lparr>taken_logs := taken_logs d @ [\<lparr>tid = k, med_id = i,
                                                         taken_at = now_iso clock\<rparr>],
                          taken_logs_seq := k\<rparr>\<rparr>))"

definition delete_med :: "int \<Rightarrow> db \<Rightarrow> outcome" where
  "delete_med i d =
     (if \<not> sqlite_integer i then raised OverflowError d else
      \<lparr>flashes = [(py ''Medication deleted.'', ''success'')],
       response = Redirect_index,
       store = d\<lparr>taken_logs := filter (\<lambda>t. med_id t \<noteq> i) (taken_logs d),
                  meds := filter (\<lambda>m. mid m \<noteq> i) (meds d)\<rparr>\<rparr>)"

text \<open>
  \<^verbatim>\<open>history\<close>. The join pairs every log row with the medication it names, in
  the order of the log; ORDER BY taken_at DESC is an insertion sort that keeps rows of
  equal \<^verbatim>\<open>taken_at\<close> in that order (SQL does not fix theirs); LIMIT 250 keeps the
  first 250.
\<close>

definition join_logs :: "db \<Rightarrow> (taken_log \<times> med) list" where
  "join_logs d = concat (map (\<lambda>t. map (\<lambda>m. (t, m)) (filter (\<lambda>m. mid m = med_id t) (meds d)))
                             (taken_logs d))"

fun insert_desc :: "(taken_log \<times> med) \<Rightarrow> (taken_log \<times> med) list \<Rightarrow> (taken_log \<times> med) list" where
  "insert_desc r [] = [r]"
| "insert_desc r (x # xs) =
     (if taken_at (fst x) \<le> taken_at (fst r) then r # x # xs else x # insert_desc r xs)"

definition order_by_taken_at_desc :: "(taken_log \<times> med) list \<Rightarrow> (taken_log \<times> med) list" where
  "order_by_taken_at_desc rs = foldr insert_desc rs []"

definition history_select :: "(taken_log \<times> med) \<Rightarrow> history_row" where
  "history_select r =
     \<lparr>h_taken_at = taken_at (fst r), h_name = name (snd r), h_dose = dose (snd r),
      h_schedule = time_of_day (snd r)\<rparr>"

text \<open>The rows the history query returns, before the four columns are selected.\<close>

definition history_query :: "datetime \<Rightarrow> pystr \<Rightarrow> db \<Rightarrow> (taken_log \<times> med) list" where
  "history_query clock dy d =
     (if dy = py ''today'' then
        take 250 (order_by_taken_at_desc
          (filter (\<lambda>r. sql_date (taken_at (fst r)) = Some (sql_date_now_localtime clock))
                  (join_logs d)))
      else take 250 (order_by_taken_at_desc (join_logs d)))"

definition history :: "datetime \<Rightarrow> pystr option \<Rightarrow> db \<Rightarrow> outcome" where
  "history clock day_arg d =
     (let dy = str_lower (str_strip (or_empty day_arg))
      in \<lparr>flashes = [],
          response = History_html (map history_select (history_query clock dy d)) dy,
          store = d\<rparr>)"

subsection \<open>The validation rule in the words of the specification\<close>

text \<open>
  The specification lists four rules, applied in order, the first one that fails giving
  the message. \<open>spec_rules\<close> is that list (each rule with the message of its
  failure) and \<open>spec_first_failure\<close> the verdict of a list of rules.
\<close>

definition spec_rules :: "pystr \<Rightarrow> pystr \<Rightarrow> pystr \<Rightarrow> (bool \<times> pystr) list" where
  "spec_rules nm ds sc =
     [(nm \<noteq> [] \<and> ds \<noteq> [] \<and> sc \<noteq> [], py ''Please fill in Name, Dose, and Schedule.''),
      (length nm \<le> 60, py ''Medication name is too long (max 60 chars).''),
      (length ds \<le> 60, py ''Dose is too long (max 60 chars).''),
      (length sc \<le> 40, py ''Schedule is too long (max 40 chars).'')]"

definition spec_first_failure :: "(bool \<times> pystr) list \<Rightarrow> bool \<times> pystr" where
  "spec_first_failure rules =
     (case find (\<lambda>r. \<not> fst r) rules of None \<Rightarrow> (True, []) | Some r \<Rightarrow> (False, snd r))"

subsection \<open>Invariants of the store\<close>

text \<open>
  Every log row names a medication of the store. The schema declares the foreign key,
  but the connection does not switch foreign keys on, so it is the handlers that keep
  this: \<^verbatim>\<open>mark_taken\<close> checks the medication before it inserts, and
  \<^verbatim>\<open>delete_med\<close> deletes the logs of the medication it deletes.
\<close>

definition refs_ok :: "db \<Rightarrow> bool" where
  "refs_ok d = list_all (\<lambda>t. med_id t \<in> set (map mid (meds d))) (taken_logs d)"

text \<open>Name, dose and schedule of every stored medication are non-empty, also when trimmed.\<close>

definition med_filled :: "med \<Rightarrow> bool" where
  "med_filled m \<longleftrightarrow>
     str_strip (name m) \<noteq> [] \<and> str_strip (dose m) \<noteq> [] \<and> str_strip (time_of_day m) \<noteq> []"

definition meds_filled :: "db \<Rightarrow> bool" where
  "meds_filled d = list_all med_filled (meds d)"

subsection \<open>Example requests and stores\<close>

text \<open>
  Two readings of the local clock in the night the clocks go back: 01:50:00 before the
  change and 01:10:00 after it, and a reading of the next day.
\<close>

definition clock_0150 :: datetime where
  "clock_0150 = \<lparr>dt_year = 2024, dt_month = 11, dt_day = 3, dt_hour = 1, dt_minute = 50,
                  dt_second = 0\<rparr>"

definition clock_0110 :: datetime where
  "clock_0110 = \<lparr>dt_year = 2024, dt_month = 11, dt_day = 3, dt_hour = 1, dt_minute = 10,
                  dt_second = 0\<rparr>"

definition clock_next_day :: datetime where
  "clock_next_day = \<lparr>dt_year = 2024, dt_month = 11, dt_day = 4, dt_hour = 8, dt_minute = 0,
                      dt_second = 0\<rparr>"

definition aspirin_form :: form where
  "aspirin_form = \<lparr>f_name = Some (py '' Aspirin ''), f_dose = Some (py ''100mg''),
                    f_schedule = Some (py ''Morning''), f_notes = Some []\<rparr>"

definition zinc_form :: form where
  "zinc_form = \<lparr>f_name = Some (py ''Zinc''), f_dose = Some (py ''15mg''),
                 f_schedule = Some (py ''Evening''), f_notes = None\<rparr>"

definition blank_form :: form where
  "blank_form = \<lparr>f_name = Some (py ''   ''), f_dose = None, f_schedule = Some [],
                  f_notes = None\<rparr>"

text \<open>A store with Aspirin (id 1) and Zinc (id 2), and the same with Aspirin taken once.\<close>

definition two_meds :: db where
  "two_meds = store (add_med clock_0150 POST zinc_form
                       (store (add_med clock_0150 POST aspirin_form empty_db)))"

definition taken_once :: db where
  "taken_once = store (mark_taken clock_0150 1 two_meds)"

text \<open>Aspirin taken a second time within the same second.\<close>

definition taken_twice :: db where
  "taken_twice = store (mark_taken clock_0150 1 taken_once)"

text \<open>And Zinc taken the next morning.\<close>

definition three_events :: db where
  "three_events = store (mark_taken clock_next_day 2 taken_twice)"

section \<open>Auxiliary facts\<close>

subsection \<open>Strings\<close>

lemma dropWhile_rev_dropWhile:
  "dropWhile P (rev (dropWhile P (rev (dropWhile P s)))) = rev (dropWhile P (rev (dropWhile P s)))"
proof (cases "dropWhile P (rev (dropWhile P s))")
  case Nil
  show ?thesis unfolding Nil by simp
next
  case (Cons a u)
  have "rev (dropWhile P s) = takeWhile P (rev (dropWhile P s)) @ a # u"
    using Cons by (metis takeWhile_dropWhile_id)
  then have "dropWhile P s = rev u @ a # rev (takeWhile P (rev (dropWhile P s)))"
    by (metis rev_append rev.simps(2) rev_rev_ident append_assoc append_Cons append_Nil)
  then have "\<not> P (hd (rev u @ [a]))"
    by (metis hd_dropWhile append_is_Nil_conv hd_append2 list.distinct(1) append_Cons append_Nil append_assoc)
  then show ?thesis using Cons
    by (cases "rev u") auto
qed

lemma str_strip_idem: "str_strip (str_strip s) = str_strip s"
  by (simp add: str_strip_def dropWhile_rev_dropWhile)

subsection \<open>Sorting, joining and the greatest text\<close>

lemma set_insert_desc: "set (insert_desc r xs) = insert r (set xs)"
  by (induction xs) auto

lemma mset_insert_desc: "mset (insert_desc r xs) = add_mset r (mset xs)"
  by (induction xs) auto

lemma sorted_insert_desc:
  "sorted_wrt (\<lambda>a b. taken_at (fst b) \<le> taken_at (fst a)) xs \<Longrightarrow>
   sorted_wrt (\<lambda>a b. taken_at (fst b) \<le> taken_at (fst a)) (insert_desc r xs)"
proof (induction xs)
  case Nil
  then show ?case by simp
next
  case (Cons x xs)
  show ?case
  proof (cases "taken_at (fst x) \<le> taken_at (fst r)")
    case True
    then have "\<forall>y\<in>set xs. taken_at (fst y) \<le> taken_at (fst r)"
      using Cons.prems by (auto intro: order_trans)
    with True Cons.prems show ?thesis by simp
  next
    case False
    then have "taken_at (fst r) \<le> taken_at (fst x)" by simp
    with False Cons show ?thesis by (auto simp: set_insert_desc)
  qed
qed

lemma mset_order_by: "mset (order_by_taken_at_desc rs) = mset rs"
  unfolding order_by_taken_at_desc_def by (induction rs) (simp_all add: mset_insert_desc)

lemma set_order_by: "set (order_by_taken_at_desc rs) = set rs"
  by (metis mset_order_by set_mset_mset)

lemma sorted_order_by:
  "sorted_wrt (\<lambda>a b. taken_at (fst b) \<le> taken_at (fst a)) (order_by_taken_at_desc rs)"
  unfolding order_by_taken_at_desc_def by (induction rs) (simp_all add: sorted_insert_desc)

lemma set_join_logs:
  "set (join_logs d) = {(t, m). t \<in> set (taken_logs d) \<and> m \<in> set (meds d) \<and> mid m = med_id t}"
  by (auto simp: join_logs_def)

lemma foldr_max_ge: "(x::pystr) \<le> foldr max xs x \<and> (\<forall>y\<in>set xs. y \<le> foldr max xs x)"
  by (induction xs) (auto simp: max_def intro: order_trans)

lemma foldr_max_in: "foldr max xs (x::pystr) \<in> set (x # xs)"
  by (induction xs) (auto simp: max_def)


lemma sql_max_None: "sql_max xs = None \<longleftrightarrow> xs = []"
  by (cases xs) auto

lemma sql_max_Some:
  assumes "sql_max xs = Some x"
  shows "x \<in> set xs \<and> (\<forall>y\<in>set xs. y \<le> x)"
proof (cases xs)
  case Nil
  with assms show ?thesis by simp
next
  case (Cons a as)
  with assms have x: "x = foldr max as a" by simp
  show ?thesis using foldr_max_ge [of a as] foldr_max_in [of as a] unfolding x Cons by auto
qed


lemma find_mid_Some: "find (\<lambda>m. mid m = i) ms = Some m \<Longrightarrow> m \<in> set ms \<and> mid m = i"
  by (auto simp: find_Some_iff)

subsection \<open>The example stores\<close>

lemmas example_defs =
  aspirin_form_def zinc_form_def blank_form_def empty_db_def or_empty_def str_strip_def
  validate_med_form_def py_def isspace_def next_rowid_def Let_def

lemma request_ids:
  "sqlite_integer 1" "sqlite_integer 2" "sqlite_integer 7"
  "\<not> sqlite_integer 9223372036854775808"
  by (simp_all add: sqlite_integer_def)

lemma two_meds_eq:
  "two_meds =
     \<lparr>meds = [\<lparr>mid = 1, name = py ''Aspirin'', dose = py ''100mg'', time_of_day = py ''Morning'',
                notes = [], created_at = now_iso clock_0150\<rparr>,
              \<lparr>mid = 2, name = py ''Zinc'', dose = py ''15mg'', time_of_day = py ''Evening'',
                notes = [], created_at = now_iso clock_0150\<rparr>],
      taken_logs = [], meds_seq = 2, taken_logs_seq = 0\<rparr>"
  by (simp add: two_meds_def add_med_def example_defs)

lemma taken_once_eq:
  "taken_once = two_meds\<lparr>taken_logs := [\<lparr>tid = 1, med_id = 1, taken_at = now_iso clock_0150\<rparr>],
                          taken_logs_seq := 1\<rparr>"
  by (simp add: taken_once_def mark_taken_def two_meds_eq next_rowid_def request_ids)

lemma taken_twice_eq:
  "taken_twice = two_meds\<lparr>taken_logs := [\<lparr>tid = 1, med_id = 1, taken_at = now_iso clock_0150\<rparr>,
                                           \<lparr>tid = 2, med_id = 1, taken_at = now_iso clock_0150\<rparr>],
                          taken_logs_seq := 2\<rparr>"
  by (simp add: taken_twice_def taken_once_eq mark_taken_def two_meds_eq next_rowid_def
        request_ids)

lemma str_strip_nonempty: "str_strip s \<noteq> [] \<Longrightarrow> s \<noteq> []"
  by (auto simp: str_strip_def)

lemma validate_ok:
  "fst (validate_med_form nm ds sc) \<longleftrightarrow>
     nm \<noteq> [] \<and> ds \<noteq> [] \<and> sc \<noteq> [] \<and> length nm \<le> 60 \<and> length ds \<le> 60 \<and> length sc \<le> 40"
  by (auto simp: validate_med_form_def)

lemma store_add_med:
  "store (add_med clock method f d) =
     (if method = POST \<and> fst (validate_med_form (str_strip (or_empty (f_name f)))
            (str_strip (or_empty (f_dose f))) (str_strip (or_empty (f_schedule f))))
      then d\<lparr>meds := meds d @ [\<lparr>mid = next_rowid (meds_seq d) (map mid (meds d)),
                   name = str_strip (or_empty (f_name f)), dose = str_strip (or_empty (f_dose f)),
                   time_of_day = str_strip (or_empty (f_schedule f)),
                   notes = str_strip (or_empty (f_notes f)), created_at = now_iso clock\<rparr>],
              meds_seq := next_rowid (meds_seq d) (map mid (meds d))\<rparr>
      else d)"
  by (cases "validate_med_form (str_strip (or_empty (f_name f)))
            (str_strip (or_empty (f_dose f))) (str_strip (or_empty (f_schedule f)))")
     (simp add: add_med_def Let_def)

lemma store_edit_med:
  "store (edit_med i method f d) =
     (if method = POST \<and> sqlite_integer i \<and> find (\<lambda>m. mid m = i) (meds d) \<noteq> None
         \<and> fst (validate_med_form (str_strip (or_empty (f_name f)))
            (str_strip (or_empty (f_dose f))) (str_strip (or_empty (f_schedule f))))
      then d\<lparr>meds := map (\<lambda>m. if mid m = i
                then m\<lparr>name := str_strip (or_empty (f_name f)), dose := str_strip (or_empty (f_dose f)),
                       time_of_day := str_strip (or_empty (f_schedule f)),
                       notes := str_strip (or_empty (f_notes f))\<rparr>
                else m) (meds d)\<rparr>
      else d)"
  by (cases "validate_med_form (str_strip (or_empty (f_name f)))
            (str_strip (or_empty (f_dose f))) (str_strip (or_empty (f_schedule f)))")
     (auto simp: edit_med_def raised_def Let_def split: option.splits)

lemma store_mark_taken:
  "store (mark_taken clock i d) =
     (if sqlite_integer i \<and> find (\<lambda>m. mid m = i) (meds d) \<noteq> None
      then d\<lparr>taken_logs := taken_logs d @ [\<lparr>tid = next_rowid (taken_logs_seq d) (map tid (taken_logs d)),
                   med_id = i, taken_at = now_iso clock\<rparr>],
              taken_logs_seq := next_rowid (taken_logs_seq d) (map tid (taken_logs d))\<rparr>
      else d)"
  by (auto simp: mark_taken_def raised_def Let_def split: option.splits)

lemma store_delete_med:
  "store (delete_med i d) =
     (if sqlite_integer i
      then d\<lparr>taken_logs := filter (\<lambda>t. med_id t \<noteq> i) (taken_logs d),
             meds := filter (\<lambda>m. mid m \<noteq> i) (meds d)\<rparr>
      else d)"
  by (simp add: delete_med_def raised_def)

lemma edit_med_keeps:
  "map mid (meds (store (edit_med i method f d))) = map mid (meds d)"
  "map created_at (meds (store (edit_med i method f d))) = map created_at (meds d)"
  "taken_logs (store (edit_med i method f d)) = taken_logs d"
  "meds_seq (store (edit_med i method f d)) = meds_seq d"
  "taken_logs_seq (store (edit_med i method f d)) = taken_logs_seq d"
  by (simp_all add: store_edit_med)

lemma refs_ok_preserved:
  "refs_ok empty_db"
  "refs_ok d \<Longrightarrow> refs_ok (store (add_med clock method f d))"
  "refs_ok d \<Longrightarrow> refs_ok (store (edit_med i method f d))"
  "refs_ok d \<Longrightarrow> refs_ok (store (mark_taken clock i d))"
  "refs_ok d \<Longrightarrow> refs_ok (store (delete_med i d))"
proof -
  show "refs_ok empty_db" by (simp add: refs_ok_def empty_db_def)
  show "refs_ok d \<Longrightarrow> refs_ok (store (add_med clock method f d))"
    by (auto simp: refs_ok_def store_add_med list_all_iff)
  show "refs_ok d \<Longrightarrow> refs_ok (store (edit_med i method f d))"
    unfolding refs_ok_def edit_med_keeps .
  show "refs_ok d \<Longrightarrow> refs_ok (store (mark_taken clock i d))"
    by (auto simp: refs_ok_def store_mark_taken list_all_iff find_None_iff)
  show "refs_ok d \<Longrightarrow> refs_ok (store (delete_med i d))"
    by (auto simp: refs_ok_def store_delete_med list_all_iff)
qed

lemma med_filled_new:
  assumes "fst (validate_med_form (str_strip a) (str_strip b) (str_strip c))"
  shows "med_filled \<lparr>mid = k, name = str_strip a, dose = str_strip b, time_of_day = str_strip c,
                     notes = n, created_at = t\<rparr>"
  using assms by (simp add: med_filled_def validate_ok str_strip_idem)

lemma med_filled_update:
  assumes "fst (validate_med_form (str_strip a) (str_strip b) (str_strip c))"
  shows "med_filled (m\<lparr>name := str_strip a, dose := str_strip b, time_of_day := str_strip c,
                       notes := n\<rparr>)"
  using assms by (simp add: med_filled_def validate_ok str_strip_idem)

lemma find_map_keep:
  assumes "\<And>m. P (g m) = P m"
  shows "find P (map g ms) = map_option g (find P ms)"
  using assms by (induction ms) auto

lemma three_events_eq:
  "three_events = two_meds\<lparr>taken_logs := [\<lparr>tid = 1, med_id = 1, taken_at = now_iso clock_0150\<rparr>,
                                            \<lparr>tid = 2, med_id = 1, taken_at = now_iso clock_0150\<rparr>,
                                            \<lparr>tid = 3, med_id = 2, taken_at = now_iso clock_next_day\<rparr>],
                          taken_logs_seq := 3\<rparr>"
  by (simp add: three_events_def taken_twice_eq mark_taken_def two_meds_eq next_rowid_def
        request_ids)

lemma clock_texts:
  "now_iso clock_0150 = py ''2024-11-03T01:50:00''"
  "now_iso clock_0110 = py ''2024-11-03T01:10:00''"
  "now_iso clock_next_day = py ''2024-11-04T08:00:00''"
  "sql_date_now_localtime clock_0150 = py ''2024-11-03''"
  "sql_date_now_localtime clock_next_day = py ''2024-11-04''"
  by (simp_all add: now_iso_def sql_date_now_localtime_def isoformat_date_def digits2_def
        digits4_def clock_0150_def clock_0110_def clock_next_day_def py_def)

lemma sql_date_texts:
  "sql_date (py ''2024-11-03T01:50:00'') = Some (py ''2024-11-03'')"
  "sql_date (py ''2024-11-04T08:00:00'') = Some (py ''2024-11-04'')"
  by (simp_all add: sql_date_def py_def to_num_def is_digit_def days_in_month_def Let_def)

lemma last_taken_of_rows:
  "last_taken_of d i = None \<longleftrightarrow> (\<forall>t\<in>set (taken_logs d). med_id t \<noteq> i)"
  "last_taken_of d i = Some x \<Longrightarrow>
     (\<exists>t\<in>set (taken_logs d). med_id t = i \<and> taken_at t = x)
     \<and> (\<forall>t\<in>set (taken_logs d). med_id t = i \<longrightarrow> taken_at t \<le> x)"
proof -
  show "last_taken_of d i = None \<longleftrightarrow> (\<forall>t\<in>set (taken_logs d). med_id t \<noteq> i)"
    by (auto simp: last_taken_of_def sql_max_None filter_empty_conv)
  assume "last_taken_of d i = Some x"
  from sql_max_Some [OF this [unfolded last_taken_of_def]]
  show "(\<exists>t\<in>set (taken_logs d). med_id t = i \<and> taken_at t = x)
     \<and> (\<forall>t\<in>set (taken_logs d). med_id t = i \<longrightarrow> taken_at t \<le> x)"
    by auto
qed

lemma index_query_sorted:
  "sorted_wrt (\<lambda>a b. time_of_day a < time_of_day b \<or> (time_of_day a = time_of_day b \<and> name a \<le> name b))
     (map i_med (index_query d))"
proof -
  have "sorted (map (\<lambda>m. (time_of_day m, name m)) (sort_key (\<lambda>m. (time_of_day m, name m)) (meds d)))"
    by (rule sorted_sort_key)
  then have "sorted_wrt (\<lambda>a b. (time_of_day a, name a) \<le> (time_of_day b, name b))
               (sort_key (\<lambda>m. (time_of_day m, name m)) (meds d))"
    by (simp add: sorted_map)
  then have "sorted_wrt (\<lambda>a b. time_of_day a < time_of_day b \<or> (time_of_day a = time_of_day b \<and> name a \<le> name b))
               (sort_key (\<lambda>m. (time_of_day m, name m)) (meds d))"
    by (rule sorted_wrt_mono_rel [rotated]) (auto simp: less_eq_prod_def)
  moreover have "map i_med (index_query d) = sort_key (\<lambda>m. (time_of_day m, name m)) (meds d)"
    by (simp add: index_query_def comp_def)
  ultimately show ?thesis by simp
qed

lemma index_query_meds: "map i_med (index_query d) = sort_key (\<lambda>m. (time_of_day m, name m)) (meds d)"
  by (simp add: index_query_def comp_def)



lemma text_order:
  "py ''2024-11-03T01:50:00'' \<le> py ''2024-11-04T08:00:00''"
  "\<not> py ''2024-11-04T08:00:00'' \<le> py ''2024-11-03T01:50:00''"
  "py ''2024-11-03'' \<noteq> py ''2024-11-04''"
  "py ''all'' \<noteq> py ''today''"
  "py ''yesterday'' \<noteq> py ''today''"
  by (simp_all add: py_def)

lemma history_query_sorted:
  "sorted_wrt (\<lambda>a b. taken_at (fst b) \<le> taken_at (fst a)) (history_query clock dy d)"
  by (simp add: history_query_def sorted_wrt_take sorted_order_by)

lemma history_query_three_events:
  "history_query clock_next_day (py ''today'') three_events =
     [(\<lparr>tid = 3, med_id = 2, taken_at = py ''2024-11-04T08:00:00''\<rparr>,
       \<lparr>mid = 2, name = py ''Zinc'', dose = py ''15mg'', time_of_day = py ''Evening'',
        notes = [], created_at = py ''2024-11-03T01:50:00''\<rparr>)]"
  "history_query clock_next_day (py ''all'') three_events =
     [(\<lparr>tid = 3, med_id = 2, taken_at = py ''2024-11-04T08:00:00''\<rparr>,
       \<lparr>mid = 2, name = py ''Zinc'', dose = py ''15mg'', time_of_day = py ''Evening'',
        notes = [], created_at = py ''2024-11-03T01:50:00''\<rparr>),
      (\<lparr>tid = 1, med_id = 1, taken_at = py ''2024-11-03T01:50:00''\<rparr>,
       \<lparr>mid = 1, name = py ''Aspirin'', dose = py ''100mg'', time_of_day = py ''Morning'',
        notes = [], created_at = py ''2024-11-03T01:50:00''\<rparr>),
      (\<lparr>tid = 2, med_id = 1, taken_at = py ''2024-11-03T01:50:00''\<rparr>,
       \<lparr>mid = 1, name = py ''Aspirin'', dose = py ''100mg'', time_of_day = py ''Morning'',
        notes = [], created_at = py ''2024-11-03T01:50:00''\<rparr>)]"
  by (simp_all add: history_query_def join_logs_def order_by_taken_at_desc_def three_events_eq
        two_meds_eq clock_texts sql_date_texts text_order)

section \<open>The claims\<close>

subsection \<open>Validation\<close>

text \<open>
  Claim C1. Create and update trim name, dose and schedule and validate the trimmed
  values by the four rules of the specification, in their order, the first rule that fails
  giving the message: the verdict of \<^verbatim>\<open>validate_med_form\<close> is that of
  \<open>spec_first_failure\<close> on \<open>spec_rules\<close>, and the four messages differ from
  each other. When validation fails, \<^verbatim>\<open>add_med\<close> flashes that one message as
  an error, renders the form again and leaves the store as it was; so does
  \<^verbatim>\<open>edit_med\<close> for a medication that exists, under an id the driver can bind
  (it validates only then).
\<close>

theorem validation_first_failure_wins:
  assumes "nm = str_strip (or_empty (f_name f))"
      and "ds = str_strip (or_empty (f_dose f))"
      and "sc = str_strip (or_empty (f_schedule f))"
  shows "validate_med_form nm ds sc = spec_first_failure (spec_rules nm ds sc)
       \<and> distinct (map snd (spec_rules nm ds sc))
       \<and> (\<not> fst (validate_med_form nm ds sc) \<longrightarrow>
            add_med clock POST f d =
              \<lparr>flashes = [(snd (validate_med_form nm ds sc), ''error'')],
               response = Add_edit_html ''add'' None, store = d\<rparr>)
       \<and> (\<not> fst (validate_med_form nm ds sc) \<and> sqlite_integer i
            \<and> find (\<lambda>m. mid m = i) (meds d) = Some med \<longrightarrow>
            edit_med i POST f d =
              \<lparr>flashes = [(snd (validate_med_form nm ds sc), ''error'')],
               response = Add_edit_html ''edit'' (Some \<lparr>e_med = med, e_schedule = time_of_day med\<rparr>),
               store = d\<rparr>)"
proof -
  obtain ok msg where v: "validate_med_form nm ds sc = (ok, msg)"
    by (cases "validate_med_form nm ds sc")
  have 1: "validate_med_form nm ds sc = spec_first_failure (spec_rules nm ds sc)"
    by (simp add: validate_med_form_def spec_first_failure_def spec_rules_def)
  have 2: "distinct (map snd (spec_rules nm ds sc))"
    by (simp add: spec_rules_def py_def)
  have 3: "add_med clock POST f d =
      \<lparr>flashes = [(msg, ''error'')], response = Add_edit_html ''add'' None, store = d\<rparr>"
    if "\<not> ok"
    using that v unfolding assms by (simp add: add_med_def)
  have 4: "edit_med i POST f d =
      \<lparr>flashes = [(msg, ''error'')],
       response = Add_edit_html ''edit'' (Some \<lparr>e_med = med, e_schedule = time_of_day med\<rparr>),
       store = d\<rparr>"
    if "\<not> ok" "sqlite_integer i" "find (\<lambda>m. mid m = i) (meds d) = Some med"
    using that v unfolding assms by (simp add: edit_med_def)
  have 5: "\<not> fst (validate_med_form nm ds sc) \<longrightarrow>
            add_med clock POST f d =
              \<lparr>flashes = [(snd (validate_med_form nm ds sc), ''error'')],
               response = Add_edit_html ''add'' None, store = d\<rparr>"
    using 3 by (simp add: v)
  have 6: "\<not> fst (validate_med_form nm ds sc) \<and> sqlite_integer i
            \<and> find (\<lambda>m. mid m = i) (meds d) = Some med \<longrightarrow>
            edit_med i POST f d =
              \<lparr>flashes = [(snd (validate_med_form nm ds sc), ''error'')],
               response = Add_edit_html ''edit'' (Some \<lparr>e_med = med, e_schedule = time_of_day med\<rparr>),
               store = d\<rparr>"
    using 4 by (simp add: v)
  from 1 2 5 6 show ?thesis by blast
qed

theorem validation_first_failure_wins_witness:
  "add_med clock_0150 POST blank_form two_meds =
     \<lparr>flashes = [(py ''Please fill in Name, Dose, and Schedule.'', ''error'')],
      response = Add_edit_html ''add'' None, store = two_meds\<rparr>
   \<and> edit_med 2 POST (zinc_form\<lparr>f_name := Some (replicate 61 90), f_dose := Some (replicate 61 90)\<rparr>) two_meds =
     \<lparr>flashes = [(py ''Medication name is too long (max 60 chars).'', ''error'')],
      response = Add_edit_html ''edit''
        (Some \<lparr>e_med = \<lparr>mid = 2, name = py ''Zinc'', dose = py ''15mg'', time_of_day = py ''Evening'',
                         notes = [], created_at = now_iso clock_0150\<rparr>,
               e_schedule = py ''Evening''\<rparr>),
      store = two_meds\<rparr>"
proof -
  let ?long = "zinc_form\<lparr>f_name := Some (replicate 61 90), f_dose := Some (replicate 61 90)\<rparr>"
  have s: "str_strip (replicate 61 90) = replicate 61 90"
    by (simp add: str_strip_def isspace_def dropWhile_replicate)
  have a: "validate_med_form (str_strip (or_empty (f_name blank_form)))
             (str_strip (or_empty (f_dose blank_form))) (str_strip (or_empty (f_schedule blank_form)))
           = (False, py ''Please fill in Name, Dose, and Schedule.'')"
    by (simp add: example_defs)
  have b: "validate_med_form (str_strip (or_empty (f_name ?long)))
             (str_strip (or_empty (f_dose ?long))) (str_strip (or_empty (f_schedule ?long)))
           = (False, py ''Medication name is too long (max 60 chars).'')"
    by (simp add: zinc_form_def or_empty_def s validate_med_form_def)
       (simp add: str_strip_def py_def isspace_def)
  have c: "find (\<lambda>m. mid m = 2) (meds two_meds) =
             Some \<lparr>mid = 2, name = py ''Zinc'', dose = py ''15mg'', time_of_day = py ''Evening'',
                   notes = [], created_at = now_iso clock_0150\<rparr>"
    by (simp add: two_meds_eq)
  show ?thesis
    using validation_first_failure_wins [OF refl refl refl, of blank_form clock_0150 two_meds]
          validation_first_failure_wins [OF refl refl refl, of ?long _ two_meds 2]
          request_ids(2)
    unfolding a b c by simp
qed




subsection \<open>Deleting\<close>




text \<open>
  Claim C2. After \<^verbatim>\<open>delete_med\<close> of an id with N log rows (an id of the
  store, so a 64-bit integer) the medication is gone and so are its N rows: the tables are the old ones without the rows of that id,
  the log is shorter by N, and no row the history query returns afterwards, under any
  filter, comes from a deleted log row or from the deleted medication.
\<close>

theorem delete_removes_med_and_events:
  assumes "d' = store (delete_med i d)"
      and "length (filter (\<lambda>t. med_id t = i) (taken_logs d)) = N"
      and "sqlite_integer i"
  shows "find (\<lambda>m. mid m = i) (meds d') = None
       \<and> meds d' = filter (\<lambda>m. mid m \<noteq> i) (meds d)
       \<and> taken_logs d' = filter (\<lambda>t. med_id t \<noteq> i) (taken_logs d)
       \<and> length (taken_logs d') = length (taken_logs d) - N
       \<and> (\<forall>t\<in>set (taken_logs d). med_id t = i \<longrightarrow> t \<notin> set (taken_logs d'))
       \<and> (\<forall>r\<in>set (history_query clock dy d').
             med_id (fst r) \<noteq> i \<and> mid (snd r) \<noteq> i \<and> fst r \<in> set (taken_logs d'))"
proof -
  have m: "meds d' = filter (\<lambda>m. mid m \<noteq> i) (meds d)"
    and t: "taken_logs d' = filter (\<lambda>t. med_id t \<noteq> i) (taken_logs d)"
    by (simp_all add: assms(1) assms(3) store_delete_med)
  have 1: "find (\<lambda>m. mid m = i) (meds d') = None"
    by (simp add: m find_None_iff)
  have "length (taken_logs d) =
          length (filter (\<lambda>t. med_id t = i) (taken_logs d))
          + length (filter (\<lambda>t. \<not> med_id t = i) (taken_logs d))"
    by (rule sum_length_filter_compl [symmetric])
  then have 2: "length (taken_logs d') = length (taken_logs d) - N"
    using assms(2) by (simp add: t)
  have 3: "\<forall>t\<in>set (taken_logs d). med_id t = i \<longrightarrow> t \<notin> set (taken_logs d')"
    by (simp add: t)
  have "set (history_query clock dy d') \<subseteq> set (join_logs d')"
    by (auto simp: history_query_def set_order_by dest: in_set_takeD)
  then have 4: "\<forall>r\<in>set (history_query clock dy d').
             med_id (fst r) \<noteq> i \<and> mid (snd r) \<noteq> i \<and> fst r \<in> set (taken_logs d')"
    by (auto simp: set_join_logs m t)
  from 1 m t 2 3 4 show ?thesis by blast
qed

theorem delete_removes_med_and_events_witness:
  "meds (store (delete_med 1 taken_twice)) =
     [\<lparr>mid = 2, name = py ''Zinc'', dose = py ''15mg'', time_of_day = py ''Evening'',
       notes = [], created_at = now_iso clock_0150\<rparr>]
   \<and> length (taken_logs taken_twice) = 2
   \<and> taken_logs (store (delete_med 1 taken_twice)) = []
   \<and> history_query clock_0150 (py ''all'') (store (delete_med 1 taken_twice)) = []"
proof -
  have n: "length (filter (\<lambda>t. med_id t = 1) (taken_logs taken_twice)) = 2"
    by (simp add: taken_twice_eq)
  have j: "join_logs (store (delete_med 1 taken_twice)) = []"
    by (simp add: join_logs_def store_delete_med taken_twice_eq request_ids)
  have h: "history_query clock_0150 (py ''all'') (store (delete_med 1 taken_twice)) = []"
    by (simp add: history_query_def j py_def order_by_taken_at_desc_def)
  show ?thesis
    using delete_removes_med_and_events [OF refl n request_ids(1), of clock_0150 "py ''all''"] h
    by (simp add: taken_twice_eq two_meds_eq)
qed

text \<open>
  Claim C8. Name, dose and schedule of every stored medication are non-empty, and stay
  non-empty when trimmed: this holds of the store \<^verbatim>\<open>init_db\<close> creates and is
  kept by \<^verbatim>\<open>add_med\<close>, \<^verbatim>\<open>edit_med\<close>, \<^verbatim>\<open>delete_med\<close> and
  \<^verbatim>\<open>mark_taken\<close>, for every request.
\<close>

theorem nonempty_fields_invariant:
  "meds_filled (init_db None)
   \<and> (meds_filled d \<longrightarrow>
        meds_filled (store (add_med clock method f d))
      \<and> meds_filled (store (edit_med i method f d))
      \<and> meds_filled (store (delete_med i d))
      \<and> meds_filled (store (mark_taken clock i d))
      \<and> (\<forall>m\<in>set (meds d). name m \<noteq> [] \<and> dose m \<noteq> [] \<and> time_of_day m \<noteq> []))"
proof -
  have 0: "meds_filled (init_db None)"
    by (simp add: meds_filled_def init_db_def empty_db_def)
  have 1: "meds_filled (store (add_med clock method f d))" if "meds_filled d"
    using that by (simp add: meds_filled_def store_add_med med_filled_new)
  have 2: "meds_filled (store (edit_med i method f d))" if "meds_filled d"
    using that by (auto simp: meds_filled_def store_edit_med list_all_iff med_filled_update)
  have 3: "meds_filled (store (delete_med i d))" if "meds_filled d"
    using that by (simp add: meds_filled_def store_delete_med list_all_iff)
  have 4: "meds_filled (store (mark_taken clock i d))" if "meds_filled d"
    using that by (simp add: meds_filled_def store_mark_taken)
  have 5: "\<forall>m\<in>set (meds d). name m \<noteq> [] \<and> dose m \<noteq> [] \<and> time_of_day m \<noteq> []" if "meds_filled d"
    using that by (auto simp: meds_filled_def list_all_iff med_filled_def dest: str_strip_nonempty)
  from 0 1 2 3 4 5 show ?thesis by blast
qed

theorem nonempty_fields_invariant_witness:
  "meds_filled two_meds
   \<and> meds_filled (store (add_med clock_next_day POST zinc_form two_meds))
   \<and> meds_filled (store (edit_med 1 POST zinc_form two_meds))
   \<and> meds_filled (store (delete_med 1 two_meds))
   \<and> meds_filled (store (mark_taken clock_next_day 1 two_meds))
   \<and> name (hd (meds (store (edit_med 1 POST zinc_form two_meds)))) = py ''Zinc''"
proof -
  have a: "meds_filled two_meds"
    by (simp add: meds_filled_def med_filled_def two_meds_eq str_strip_def py_def isspace_def)
  have b: "name (hd (meds (store (edit_med 1 POST zinc_form two_meds)))) = py ''Zinc''"
    by (simp add: store_edit_med two_meds_eq example_defs request_ids)
  show ?thesis
    using a b nonempty_fields_invariant [of two_meds clock_next_day POST zinc_form 1]
    by simp
qed

text \<open>
  Claim C6. A successful update (a POST for an id that exists, a 64-bit integer as every
  id of the store is, with fields that pass validation) overwrites name, dose, schedule and notes of the medication with that id by
  the trimmed fields and changes nothing else: ids and \<^verbatim>\<open>created_at\<close> of all
  medications are the same before and after, every medication with another id is the same
  row, and the log and both counters are untouched.
\<close>

theorem edit_changes_only_the_four_fields:
  assumes "find (\<lambda>m. mid m = i) (meds d) = Some med"
      and "nm = str_strip (or_empty (f_name f))"
      and "ds = str_strip (or_empty (f_dose f))"
      and "sc = str_strip (or_empty (f_schedule f))"
      and "nt = str_strip (or_empty (f_notes f))"
      and "fst (validate_med_form nm ds sc)"
      and "d' = store (edit_med i POST f d)"
      and "sqlite_integer i"
  shows "find (\<lambda>m. mid m = i) (meds d') =
           Some (med\<lparr>name := nm, dose := ds, time_of_day := sc, notes := nt\<rparr>)
       \<and> mid (med\<lparr>name := nm, dose := ds, time_of_day := sc, notes := nt\<rparr>) = mid med
       \<and> created_at (med\<lparr>name := nm, dose := ds, time_of_day := sc, notes := nt\<rparr>) = created_at med
       \<and> length (meds d') = length (meds d)
       \<and> (\<forall>k<length (meds d).
             mid (meds d' ! k) = mid (meds d ! k)
           \<and> created_at (meds d' ! k) = created_at (meds d ! k)
           \<and> (if mid (meds d ! k) = i
               then meds d' ! k = (meds d ! k)\<lparr>name := nm, dose := ds, time_of_day := sc, notes := nt\<rparr>
               else meds d' ! k = meds d ! k))
       \<and> taken_logs d' = taken_logs d
       \<and> meds_seq d' = meds_seq d \<and> taken_logs_seq d' = taken_logs_seq d"
proof -
  let ?g = "\<lambda>m. if mid m = i then m\<lparr>name := nm, dose := ds, time_of_day := sc, notes := nt\<rparr> else m"
  have d': "d' = d\<lparr>meds := map ?g (meds d)\<rparr>"
    using assms by (simp add: store_edit_med)
  have "find (\<lambda>m. mid m = i) (map ?g (meds d)) = map_option ?g (find (\<lambda>m. mid m = i) (meds d))"
    by (rule find_map_keep) simp
  also have "\<dots> = Some (med\<lparr>name := nm, dose := ds, time_of_day := sc, notes := nt\<rparr>)"
    using assms(1) find_mid_Some [OF assms(1)] by simp
  finally have 1: "find (\<lambda>m. mid m = i) (meds d') =
           Some (med\<lparr>name := nm, dose := ds, time_of_day := sc, notes := nt\<rparr>)"
    by (simp add: d')
  have 2: "\<forall>k<length (meds d).
             mid (meds d' ! k) = mid (meds d ! k)
           \<and> created_at (meds d' ! k) = created_at (meds d ! k)
           \<and> (if mid (meds d ! k) = i
               then meds d' ! k = (meds d ! k)\<lparr>name := nm, dose := ds, time_of_day := sc, notes := nt\<rparr>
               else meds d' ! k = meds d ! k)"
    by (simp add: d')
  from 1 2 show ?thesis by (simp add: d')
qed

theorem edit_changes_only_the_four_fields_witness:
  "store (edit_med 1 POST zinc_form taken_once) =
     taken_once\<lparr>meds :=
       [\<lparr>mid = 1, name = py ''Zinc'', dose = py ''15mg'', time_of_day = py ''Evening'',
         notes = [], created_at = now_iso clock_0150\<rparr>,
        \<lparr>mid = 2, name = py ''Zinc'', dose = py ''15mg'', time_of_day = py ''Evening'',
         notes = [], created_at = now_iso clock_0150\<rparr>]\<rparr>"
proof -
  let ?old = "\<lparr>mid = 1, name = py ''Aspirin'', dose = py ''100mg'', time_of_day = py ''Morning'',
               notes = [], created_at = now_iso clock_0150\<rparr>"
  have a: "find (\<lambda>m. mid m = 1) (meds taken_once) = Some ?old"
    by (simp add: taken_once_eq two_meds_eq)
  have v: "fst (validate_med_form (str_strip (or_empty (f_name zinc_form)))
             (str_strip (or_empty (f_dose zinc_form))) (str_strip (or_empty (f_schedule zinc_form))))"
    by (simp add: example_defs)
  have s: "str_strip (or_empty (f_name zinc_form)) = py ''Zinc''"
          "str_strip (or_empty (f_dose zinc_form)) = py ''15mg''"
          "str_strip (or_empty (f_schedule zinc_form)) = py ''Evening''"
          "str_strip (or_empty (f_notes zinc_form)) = []"
    by (simp_all add: example_defs)
  have l: "length (meds taken_once) = 2" by (simp add: taken_once_eq two_meds_eq)
  have "\<forall>k<2. meds (store (edit_med 1 POST zinc_form taken_once)) ! k =
          [\<lparr>mid = 1, name = py ''Zinc'', dose = py ''15mg'', time_of_day = py ''Evening'',
            notes = [], created_at = now_iso clock_0150\<rparr>,
           \<lparr>mid = 2, name = py ''Zinc'', dose = py ''15mg'', time_of_day = py ''Evening'',
            notes = [], created_at = now_iso clock_0150\<rparr>] ! k"
    using edit_changes_only_the_four_fields [OF a refl refl refl refl v refl request_ids(1)]
    unfolding s l by (auto simp: taken_once_eq two_meds_eq less_Suc_eq numeral_2_eq_2)
  then have "meds (store (edit_med 1 POST zinc_form taken_once)) =
          [\<lparr>mid = 1, name = py ''Zinc'', dose = py ''15mg'', time_of_day = py ''Evening'',
            notes = [], created_at = now_iso clock_0150\<rparr>,
           \<lparr>mid = 2, name = py ''Zinc'', dose = py ''15mg'', time_of_day = py ''Evening'',
            notes = [], created_at = now_iso clock_0150\<rparr>]"
    using edit_changes_only_the_four_fields [OF a refl refl refl refl v refl request_ids(1)] l
    by (simp add: list_eq_iff_nth_eq)
  then show ?thesis
    using edit_changes_only_the_four_fields [OF a refl refl refl refl v refl request_ids(1)]
    by (simp add: db.equality)
qed

subsection \<open>Listing\<close>

text \<open>
  Claim C4. The index page lists every stored medication once (the rows are a
  permutation of the table), ordered by schedule ascending and, among equal schedules, by
  name ascending, in the order of the store, which compares code points and so is
  case-sensitive (Zinc comes before aspirin). Each row carries the schedule under its
  outward name and \<^verbatim>\<open>last_taken\<close>: empty exactly when no log row names the
  medication, and otherwise the \<^verbatim>\<open>taken_at\<close> of one of its log rows that none
  of its log rows exceeds.
\<close>

theorem index_lists_all_sorted_with_last_taken:
  "response (index d) = Index_html (index_query d) \<and> store (index d) = d
   \<and> mset (map i_med (index_query d)) = mset (meds d)
   \<and> sorted_wrt (\<lambda>a b. time_of_day a < time_of_day b
                        \<or> (time_of_day a = time_of_day b \<and> name a \<le> name b))
        (map i_med (index_query d))
   \<and> py ''Zinc'' < py ''aspirin''
   \<and> (\<forall>r\<in>set (index_query d).
         i_schedule r = time_of_day (i_med r)
       \<and> (last_taken r = None \<longleftrightarrow> (\<forall>t\<in>set (taken_logs d). med_id t \<noteq> mid (i_med r)))
       \<and> (\<forall>x. last_taken r = Some x \<longrightarrow>
             (\<exists>t\<in>set (taken_logs d). med_id t = mid (i_med r) \<and> taken_at t = x)
           \<and> (\<forall>t\<in>set (taken_logs d). med_id t = mid (i_med r) \<longrightarrow> taken_at t \<le> x)))"
proof -
  have 1: "response (index d) = Index_html (index_query d) \<and> store (index d) = d"
    by (simp add: index_def)
  have 2: "mset (map i_med (index_query d)) = mset (meds d)"
    by (simp add: index_query_meds)
  have 3: "py ''Zinc'' < py ''aspirin''"
    by (simp add: py_def)
  have 4: "\<forall>r\<in>set (index_query d).
         i_schedule r = time_of_day (i_med r)
       \<and> (last_taken r = None \<longleftrightarrow> (\<forall>t\<in>set (taken_logs d). med_id t \<noteq> mid (i_med r)))
       \<and> (\<forall>x. last_taken r = Some x \<longrightarrow>
             (\<exists>t\<in>set (taken_logs d). med_id t = mid (i_med r) \<and> taken_at t = x)
           \<and> (\<forall>t\<in>set (taken_logs d). med_id t = mid (i_med r) \<longrightarrow> taken_at t \<le> x))"
    using last_taken_of_rows by (auto simp: index_query_def)
  from 1 2 3 4 index_query_sorted [of d] show ?thesis by blast
qed

theorem index_lists_all_sorted_with_last_taken_witness:
  "index_query taken_once =
     [\<lparr>i_med = \<lparr>mid = 2, name = py ''Zinc'', dose = py ''15mg'', time_of_day = py ''Evening'',
                notes = [], created_at = py ''2024-11-03T01:50:00''\<rparr>,
       i_schedule = py ''Evening'', last_taken = None\<rparr>,
      \<lparr>i_med = \<lparr>mid = 1, name = py ''Aspirin'', dose = py ''100mg'', time_of_day = py ''Morning'',
                notes = [], created_at = py ''2024-11-03T01:50:00''\<rparr>,
       i_schedule = py ''Morning'', last_taken = Some (py ''2024-11-03T01:50:00'')\<rparr>]
   \<and> sorted_wrt (\<lambda>a b. time_of_day a < time_of_day b
                        \<or> (time_of_day a = time_of_day b \<and> name a \<le> name b))
        (map i_med (index_query taken_once))"
proof -
  have "py ''Evening'' < py ''Morning''" by (simp add: py_def)
  then have "index_query taken_once =
     [\<lparr>i_med = \<lparr>mid = 2, name = py ''Zinc'', dose = py ''15mg'', time_of_day = py ''Evening'',
                notes = [], created_at = py ''2024-11-03T01:50:00''\<rparr>,
       i_schedule = py ''Evening'', last_taken = None\<rparr>,
      \<lparr>i_med = \<lparr>mid = 1, name = py ''Aspirin'', dose = py ''100mg'', time_of_day = py ''Morning'',
                notes = [], created_at = py ''2024-11-03T01:50:00''\<rparr>,
       i_schedule = py ''Morning'', last_taken = Some (py ''2024-11-03T01:50:00'')\<rparr>]"
    by (simp add: index_query_def taken_once_eq two_meds_eq clock_texts last_taken_of_def
          less_eq_prod_def order.strict_iff_not)
  then show ?thesis
    using index_lists_all_sorted_with_last_taken [of taken_once] by simp
qed

subsection \<open>Marking as taken\<close>




subsection \<open>The history\<close>

text \<open>
  Claim C5, as the code has it. Under the filter \<open>today\<close> the history query returns
  only rows whose \<^verbatim>\<open>taken_at\<close> has the date of the local clock. Under any other
  filter it returns what it returns under \<open>all\<close>: the first 250 rows of the joined
  log in descending order of \<^verbatim>\<open>taken_at\<close>. Under every filter there are at most
  250 rows and no row has a \<^verbatim>\<open>taken_at\<close> smaller than a later row; rows of
  equal \<^verbatim>\<open>taken_at\<close> may follow each other, so the order is descending but not
  strictly.
\<close>

theorem history_filters_and_order:
  "(\<forall>r\<in>set (history_query clock (py ''today'') d).
       sql_date (taken_at (fst r)) = Some (sql_date_now_localtime clock) \<and> r \<in> set (join_logs d))
   \<and> (dy \<noteq> py ''today'' \<longrightarrow>
         history_query clock dy d = history_query clock (py ''all'') d
       \<and> (\<exists>ys. mset ys = mset (join_logs d)
              \<and> sorted_wrt (\<lambda>a b. taken_at (fst b) \<le> taken_at (fst a)) ys
              \<and> history_query clock dy d = take 250 ys))
   \<and> length (history_query clock dy d) \<le> 250
   \<and> sorted_wrt (\<lambda>a b. taken_at (fst b) \<le> taken_at (fst a)) (history_query clock dy d)
   \<and> sorted_wrt (\<lambda>a b. h_taken_at b \<le> h_taken_at a)
        (map history_select (history_query clock dy d))"
proof -
  have 1: "\<forall>r\<in>set (history_query clock (py ''today'') d).
       sql_date (taken_at (fst r)) = Some (sql_date_now_localtime clock) \<and> r \<in> set (join_logs d)"
    by (auto simp: history_query_def set_order_by dest!: in_set_takeD)
  have 2: "history_query clock dy d = history_query clock (py ''all'') d
       \<and> (\<exists>ys. mset ys = mset (join_logs d)
              \<and> sorted_wrt (\<lambda>a b. taken_at (fst b) \<le> taken_at (fst a)) ys
              \<and> history_query clock dy d = take 250 ys)" if "dy \<noteq> py ''today''"
  proof
    show "history_query clock dy d = history_query clock (py ''all'') d"
      using that by (simp add: history_query_def text_order)
    have "mset (order_by_taken_at_desc (join_logs d)) = mset (join_logs d)
        \<and> sorted_wrt (\<lambda>a b. taken_at (fst b) \<le> taken_at (fst a)) (order_by_taken_at_desc (join_logs d))
        \<and> history_query clock dy d = take 250 (order_by_taken_at_desc (join_logs d))"
      using that by (simp add: mset_order_by sorted_order_by history_query_def)
    then show "\<exists>ys. mset ys = mset (join_logs d)
              \<and> sorted_wrt (\<lambda>a b. taken_at (fst b) \<le> taken_at (fst a)) ys
              \<and> history_query clock dy d = take 250 ys"
      by blast
  qed
  have 3: "length (history_query clock dy d) \<le> 250"
    by (simp add: history_query_def)
  have 4: "sorted_wrt (\<lambda>a b. h_taken_at b \<le> h_taken_at a)
        (map history_select (history_query clock dy d))"
    using history_query_sorted [of clock dy d]
    by (simp add: sorted_wrt_map history_select_def)
  from 1 2 3 4 history_query_sorted [of clock dy d] show ?thesis by blast
qed

theorem history_filters_and_order_witness:
  "map (tid \<circ> fst) (history_query clock_next_day (py ''today'') three_events) = [3]
   \<and> map (tid \<circ> fst) (history_query clock_next_day (py ''yesterday'') three_events) = [3, 1, 2]
   \<and> map (taken_at \<circ> fst) (history_query clock_next_day (py ''yesterday'') three_events) =
       [py ''2024-11-04T08:00:00'', py ''2024-11-03T01:50:00'', py ''2024-11-03T01:50:00'']
   \<and> sql_date (py ''2024-11-04T08:00:00'') = Some (sql_date_now_localtime clock_next_day)"
proof -
  have "history_query clock_next_day (py ''yesterday'') three_events =
        history_query clock_next_day (py ''all'') three_events"
    using history_filters_and_order [where dy = "py ''yesterday''"] text_order by blast
  moreover have "\<forall>r\<in>set (history_query clock_next_day (py ''today'') three_events).
       sql_date (taken_at (fst r)) = Some (sql_date_now_localtime clock_next_day)"
    using history_filters_and_order [where clock = clock_next_day and d = three_events] by blast
  ultimately show ?thesis
    by (simp add: history_query_three_events)
qed

text \<open>
  Claim C5 as it is written asks for a strictly descending order. Two events recorded within
  the same second carry the same \<^verbatim>\<open>taken_at\<close> and are both returned: the times
  of the rows, read from the last row to the first, are not strictly ascending.
\<close>

theorem history_order_counterexample:
  "map (tid \<circ> fst) (history_query clock_0150 (py ''all'') taken_twice) = [1, 2]
   \<and> map (taken_at \<circ> fst) (history_query clock_0150 (py ''all'') taken_twice) =
       [now_iso clock_0150, now_iso clock_0150]
   \<and> \<not> sorted_wrt (<) (rev (map (taken_at \<circ> fst) (history_query clock_0150 (py ''all'') taken_twice)))"
  by (simp add: history_query_def join_logs_def order_by_taken_at_desc_def taken_twice_eq
        two_meds_eq text_order)

text \<open>
  Claim C10. \<^verbatim>\<open>history\<close> compares the filter after trimming and lower-casing
  it (an absent filter counting as empty): the today query is run exactly when the
  normalised value is \<open>today\<close>, as it is for TODAY, Today and today between blanks, and
  every other value gives the rows that \<open>all\<close> gives, as does no filter at all.
\<close>

theorem history_filter_is_normalised:
  assumes "dy = str_lower (str_strip (or_empty day_arg))"
  shows "response (history clock day_arg d) =
           History_html (map history_select (history_query clock dy d)) dy
       \<and> store (history clock day_arg d) = d
       \<and> (dy = py ''today'' \<longrightarrow>
            history_query clock dy d =
              take 250 (order_by_taken_at_desc
                (filter (\<lambda>r. sql_date (taken_at (fst r)) = Some (sql_date_now_localtime clock))
                        (join_logs d))))
       \<and> (dy \<noteq> py ''today'' \<longrightarrow>
            history_query clock dy d = take 250 (order_by_taken_at_desc (join_logs d))
          \<and> history_query clock dy d = history_query clock (py ''all'') d)
       \<and> str_lower (str_strip (or_empty (Some (py ''TODAY'')))) = py ''today''
       \<and> str_lower (str_strip (or_empty (Some (py ''Today'')))) = py ''today''
       \<and> str_lower (str_strip (or_empty (Some (py '' today '')))) = py ''today''
       \<and> str_lower (str_strip (or_empty (Some (py ''all'')))) = py ''all''
       \<and> str_lower (str_strip (or_empty None)) = []
       \<and> py ''all'' \<noteq> py ''today'' \<and> [] \<noteq> py ''today''"
proof -
  have 1: "response (history clock day_arg d) =
           History_html (map history_select (history_query clock dy d)) dy
       \<and> store (history clock day_arg d) = d"
    by (simp add: history_def assms Let_def)
  have 2: "str_lower (str_strip (or_empty (Some (py ''TODAY'')))) = py ''today''
       \<and> str_lower (str_strip (or_empty (Some (py ''Today'')))) = py ''today''
       \<and> str_lower (str_strip (or_empty (Some (py '' today '')))) = py ''today''
       \<and> str_lower (str_strip (or_empty (Some (py ''all'')))) = py ''all''
       \<and> str_lower (str_strip (or_empty None)) = []
       \<and> py ''all'' \<noteq> py ''today'' \<and> [] \<noteq> py ''today''"
    by (simp add: str_lower_def str_strip_def or_empty_def py_def isspace_def lower_cp_def)
  have 3: "dy = py ''today'' \<longrightarrow>
            history_query clock dy d =
              take 250 (order_by_taken_at_desc
                (filter (\<lambda>r. sql_date (taken_at (fst r)) = Some (sql_date_now_localtime clock))
                        (join_logs d)))"
    by (simp add: history_query_def)
  have 4: "dy \<noteq> py ''today'' \<longrightarrow>
            history_query clock dy d = take 250 (order_by_taken_at_desc (join_logs d))
          \<and> history_query clock dy d = history_query clock (py ''all'') d"
    by (simp add: history_query_def text_order)
  from 1 2 3 4 show ?thesis by blast
qed

theorem history_filter_is_normalised_witness:
  "response (history clock_next_day (Some (py '' ToDay '')) three_events) =
     History_html
       [\<lparr>h_taken_at = py ''2024-11-04T08:00:00'', h_name = py ''Zinc'', h_dose = py ''15mg'',
         h_schedule = py ''Evening''\<rparr>]
       (py ''today'')
   \<and> response (history clock_next_day (Some (py ''yesterday'')) three_events) =
     History_html
       [\<lparr>h_taken_at = py ''2024-11-04T08:00:00'', h_name = py ''Zinc'', h_dose = py ''15mg'',
         h_schedule = py ''Evening''\<rparr>,
        \<lparr>h_taken_at = py ''2024-11-03T01:50:00'', h_name = py ''Aspirin'', h_dose = py ''100mg'',
         h_schedule = py ''Morning''\<rparr>,
        \<lparr>h_taken_at = py ''2024-11-03T01:50:00'', h_name = py ''Aspirin'', h_dose = py ''100mg'',
         h_schedule = py ''Morning''\<rparr>]
       (py ''yesterday'')"
proof -
  have a: "str_lower (str_strip (or_empty (Some (py '' ToDay '')))) = py ''today''"
    by (simp add: str_lower_def str_strip_def or_empty_def py_def isspace_def lower_cp_def)
  have b: "str_lower (str_strip (or_empty (Some (py ''yesterday'')))) = py ''yesterday''"
    by (simp add: str_lower_def str_strip_def or_empty_def py_def isspace_def lower_cp_def)
  have 1: "response (history clock_next_day (Some (py '' ToDay '')) three_events) =
           History_html (map history_select
             (history_query clock_next_day (py ''today'') three_events)) (py ''today'')"
    using history_filter_is_normalised [OF a [symmetric]] by blast
  have 2: "response (history clock_next_day (Some (py ''yesterday'')) three_events) =
           History_html (map history_select
             (history_query clock_next_day (py ''yesterday'') three_events)) (py ''yesterday'')"
       "history_query clock_next_day (py ''yesterday'') three_events =
           history_query clock_next_day (py ''all'') three_events"
    using history_filter_is_normalised [OF b [symmetric]] text_order by blast+
  show ?thesis
    unfolding 1 2 by (simp add: history_query_three_events history_select_def)
qed

end
